theory Spec2Isabelle
  imports Main "HOL-Library.AList"
begin

section \<open>PeerLink backend: data model\<close>

text \<open>
  The records follow \<^verbatim>\<open>backend/src/types/index.ts\<close>. A JavaScript \<^verbatim>\<open>Map\<close> is an
  association list in insertion order with one entry per key: \<^verbatim>\<open>get\<close> is
  \<^const>\<open>map_of\<close>, \<^verbatim>\<open>set\<close> is \<^const>\<open>AList.update\<close> (an existing key keeps its place, a new key
  goes last) and \<^verbatim>\<open>delete\<close> is \<^const>\<open>AList.delete\<close>. A \<^verbatim>\<open>Set\<close> is a list in insertion
  order. Numbers are integers; \<^verbatim>\<open>Date.now()\<close> is an argument \<open>now\<close> of each operation,
  read once per operation.
\<close>

datatype UploadStatus = Uploading | Paused | Completed | Failed | Cancelled

datatype ShareSessionStatus = Active | Inactive

record ClientSession =
  cs_clientId :: string
  cs_socketId :: string
  cs_nodeId :: "string option"
  cs_connected :: bool
  cs_lastHeartbeat :: int
  cs_uploads :: "string list"
  cs_downloads :: "string list"
  cs_shareId :: "string option"

record ShareSession =
  ss_shareId :: string
  ss_createdAt :: int
  ss_lastActivity :: int
  ss_clients :: "string list"
  ss_status :: ShareSessionStatus

text \<open>Errors of \<^verbatim>\<open>utils/error.utils.ts\<close>: the code, the HTTP status and the message.\<close>

datatype ErrorCode =
  BAD_REQUEST | NOT_FOUND | CONFLICT | UPLOAD_FAILED | FILE_TOO_LARGE | SHARE_SESSION_FULL

datatype Failure = AppError ErrorCode nat string | TypeError string

definition badRequest :: "string \<Rightarrow> Failure" where
  "badRequest message = AppError BAD_REQUEST 400 message"

definition notFound :: "string \<Rightarrow> Failure" where
  "notFound resource = AppError NOT_FOUND 404 (resource @ '' not found'')"

definition conflict :: "string \<Rightarrow> Failure" where
  "conflict message = AppError CONFLICT 409 message"

definition uploadFailed :: "string \<Rightarrow> Failure" where
  "uploadFailed message = AppError UPLOAD_FAILED 500 message"

definition shareSessionFull :: "string \<Rightarrow> Failure" where
  "shareSessionFull shareId =
     AppError SHARE_SESSION_FULL 409 (''Share session is full: '' @ shareId)"

text \<open>
  What an operation sends: to the socket of the request, to a client through
  \<^verbatim>\<open>ClusterManager.routeMessageToClient\<close>, or to the acknowledgement callback of the
  request.
\<close>

datatype Target = ToSocket | ToClient string | ToCallback

datatype Event =
    RateLimited int
  | HeartbeatAck
  | UploadInitResponse string
  | FileTransferStarted string string int int
  | ChunkUploaded string int nat int
  | ChunkReceived string int string int
  | ChunkAcknowledged string int
  | UploadComplete string string int int
  | CallbackError string
  | CallbackSuccess
  | ConnectionReady string nat string
  | ClientJoinedShare string string
  | ClientDisconnectedFromShare string string

type_synonym Out = "Target \<times> Event"

section \<open>Sessions and shares\<close>

text \<open>
  The session and share maps of \<^verbatim>\<open>StorageRepository.inMemoryStorage\<close>, with the
  repository's \<^verbatim>\<open>get\<close>/\<open>set\<close>/\<open>delete\<close> operations on them.
\<close>

record Sessions =
  clientSessions :: "(string \<times> ClientSession) list"
  shareSessions :: "(string \<times> ShareSession) list"

definition empty_sessions :: Sessions where
  "empty_sessions = \<lparr>clientSessions = [], shareSessions = []\<rparr>"

definition getClientSession :: "Sessions \<Rightarrow> string \<Rightarrow> ClientSession option" where
  "getClientSession st clientId = map_of (clientSessions st) clientId"

definition setClientSession :: "string \<Rightarrow> ClientSession \<Rightarrow> Sessions \<Rightarrow> Sessions" where
  "setClientSession clientId session st =
     st\<lparr>clientSessions := AList.update clientId session (clientSessions st)\<rparr>"

definition getShareSession :: "Sessions \<Rightarrow> string \<Rightarrow> ShareSession option" where
  "getShareSession st shareId = map_of (shareSessions st) shareId"

definition setShareSession :: "string \<Rightarrow> ShareSession \<Rightarrow> Sessions \<Rightarrow> Sessions" where
  "setShareSession shareId session st =
     st\<lparr>shareSessions := AList.update shareId session (shareSessions st)\<rparr>"

definition deleteShareSession :: "string \<Rightarrow> Sessions \<Rightarrow> Sessions" where
  "deleteShareSession shareId st =
     st\<lparr>shareSessions := AList.delete shareId (shareSessions st)\<rparr>"

text \<open>JavaScript truthiness of an optional string: defined and not empty.\<close>

fun truthy :: "string option \<Rightarrow> bool" where
  "truthy None = False"
| "truthy (Some s) = (s \<noteq> [])"

text \<open>
  \<^verbatim>\<open>ShareController.createShare\<close>. \<open>generated\<close> is the identifier
  \<^verbatim>\<open>share-<Date.now()>-<random>\<close> the controller would generate. The result is the error
  thrown, or the new state, the messages routed and the share id of the response.
\<close>

definition createShare ::
  "int \<Rightarrow> string \<Rightarrow> string \<Rightarrow> string option \<Rightarrow> Sessions
     \<Rightarrow> Failure + (Sessions \<times> Out list \<times> string)" where
  "createShare now generated clientId customShareId st =
     (if clientId = [] then Inl (badRequest ''Missing required fields: clientId'')
      else if truthy customShareId \<and> getShareSession st (the customShareId) \<noteq> None
      then Inl (conflict ''Share ID already exists'')
      else
        let shareId = (if truthy customShareId then the customShareId else generated);
            shareSession = \<lparr>ss_shareId = shareId, ss_createdAt = now, ss_lastActivity = now,
                            ss_clients = [clientId], ss_status = Active\<rparr>;
            st1 = setShareSession shareId shareSession st;
            st2 = (case getClientSession st1 clientId of
                     None \<Rightarrow> st1
                   | Some clientSession \<Rightarrow>
                       setClientSession clientId (clientSession\<lparr>cs_shareId := Some shareId\<rparr>) st1)
        in Inr (st2,
                map (\<lambda>cid. (ToClient cid,
                       ConnectionReady shareId (length (ss_clients shareSession))
                         ''Share session created - Waiting for others to join''))
                    (ss_clients shareSession),
                shareId))"

text \<open>
  \<^verbatim>\<open>ShareController.joinShare\<close>. The response carries the number of connected clients.
\<close>

definition joinShare ::
  "int \<Rightarrow> string \<Rightarrow> string \<Rightarrow> Sessions \<Rightarrow> Failure + (Sessions \<times> Out list \<times> nat)" where
  "joinShare now shareId clientId st =
     (if shareId = [] \<and> clientId = []
      then Inl (badRequest ''Missing required fields: shareId, clientId'')
      else if shareId = [] then Inl (badRequest ''Missing required fields: shareId'')
      else if clientId = [] then Inl (badRequest ''Missing required fields: clientId'')
      else case getShareSession st shareId of
        None \<Rightarrow> Inl (notFound ''Share session not found'')
      | Some shareSession \<Rightarrow>
          if ss_status shareSession = Inactive then Inl (badRequest ''Share session is inactive'')
          else if length (ss_clients shareSession) \<ge> 2 then Inl (shareSessionFull shareId)
          else
            let shareSession' = shareSession\<lparr>ss_clients := ss_clients shareSession @ [clientId],
                                              ss_lastActivity := now\<rparr>;
                st1 = setShareSession shareId shareSession' st;
                st2 = (case getClientSession st1 clientId of
                         None \<Rightarrow> st1
                       | Some clientSession \<Rightarrow>
                           setClientSession clientId
                             (clientSession\<lparr>cs_shareId := Some shareId\<rparr>) st1)
            in Inr (st2,
                    concat (map (\<lambda>cid.
                      [(ToClient cid,
                        ConnectionReady shareId (length (ss_clients shareSession'))
                          ''Connection ready - Ready to share files!''),
                       (ToClient cid, ClientJoinedShare clientId shareId)])
                      (ss_clients shareSession')),
                    length (ss_clients shareSession')))"

text \<open>
  The \<^verbatim>\<open>register\<close> handler of \<^verbatim>\<open>socket.handler.ts\<close>: a fresh session replaces any
  session stored under the client id.
\<close>

definition register :: "int \<Rightarrow> string option \<Rightarrow> string \<Rightarrow> string \<Rightarrow> Sessions \<Rightarrow> Sessions" where
  "register now nodeId socketId clientId st =
     setClientSession clientId
       \<lparr>cs_clientId = clientId, cs_socketId = socketId, cs_nodeId = nodeId,
        cs_connected = True, cs_lastHeartbeat = now, cs_uploads = [], cs_downloads = [],
        cs_shareId = None\<rparr> st"

text \<open>
  The \<^verbatim>\<open>disconnect\<close> handler: the first session bound to the socket leaves the share
  its \<^verbatim>\<open>shareId\<close> names; a share left empty is deleted.
\<close>

definition disconnect :: "string \<Rightarrow> Sessions \<Rightarrow> Sessions \<times> Out list" where
  "disconnect socketId st =
     (case find (\<lambda>(clientId, session). cs_socketId session = socketId) (clientSessions st) of
        None \<Rightarrow> (st, [])
      | Some (clientId, session) \<Rightarrow>
          let (st1, outs) =
                (if truthy (cs_shareId session) then
                   (case getShareSession st (the (cs_shareId session)) of
                      None \<Rightarrow> (st, [])
                    | Some shareSession \<Rightarrow>
                        let otherClients = filter (\<lambda>cid. cid \<noteq> clientId) (ss_clients shareSession);
                            notes = map (\<lambda>other. (ToClient other,
                                      ClientDisconnectedFromShare clientId (the (cs_shareId session))))
                                      otherClients
                        in if length otherClients = 0
                           then (deleteShareSession (the (cs_shareId session)) st, notes)
                           else (setShareSession (the (cs_shareId session))
                                   (shareSession\<lparr>ss_clients := otherClients\<rparr>) st, notes))
                 else (st, []))
          in (setClientSession clientId (session\<lparr>cs_connected := False\<rparr>) st1, outs))"

text \<open>Sequences of session operations; a rejected request leaves the state as it was.\<close>

datatype Op =
    Register int "string option" string string
  | CreateShare int string string "string option"
  | JoinShare int string string
  | Disconnect string

fun apply_op :: "Op \<Rightarrow> Sessions \<Rightarrow> Sessions" where
  "apply_op (Register now nodeId socketId clientId) st = register now nodeId socketId clientId st"
| "apply_op (CreateShare now generated clientId customShareId) st =
     (case createShare now generated clientId customShareId st of
        Inl _ \<Rightarrow> st | Inr (st', _, _) \<Rightarrow> st')"
| "apply_op (JoinShare now shareId clientId) st =
     (case joinShare now shareId clientId st of Inl _ \<Rightarrow> st | Inr (st', _, _) \<Rightarrow> st')"
| "apply_op (Disconnect socketId) st = fst (disconnect socketId st)"

fun run :: "Op list \<Rightarrow> Sessions \<Rightarrow> Sessions" where
  "run [] st = st"
| "run (op # ops) st = run ops (apply_op op st)"

definition in_share :: "Sessions \<Rightarrow> string \<Rightarrow> string \<Rightarrow> bool" where
  "in_share st shareId clientId =
     (case getShareSession st shareId of
        None \<Rightarrow> False
      | Some shareSession \<Rightarrow> clientId \<in> set (ss_clients shareSession))"

definition listed :: "Sessions \<Rightarrow> string \<Rightarrow> bool" where
  "listed st clientId = list_ex (\<lambda>shareId. in_share st shareId clientId) (map fst (shareSessions st))"

definition at_most_one_share :: "Sessions \<Rightarrow> bool" where
  "at_most_one_share st =
     (\<forall>clientId s1 s2. in_share st s1 clientId \<and> in_share st s2 clientId \<longrightarrow> s1 = s2)"

text \<open>A sequence in which no client creates or joins a share while a share lists it.\<close>

fun op_guard :: "Op \<Rightarrow> Sessions \<Rightarrow> bool" where
  "op_guard (CreateShare now generated clientId customShareId) st = (\<not> listed st clientId)"
| "op_guard (JoinShare now shareId clientId) st = (\<not> listed st clientId)"
| "op_guard _ st = True"

fun one_share_at_a_time :: "Op list \<Rightarrow> Sessions \<Rightarrow> bool" where
  "one_share_at_a_time [] st = True"
| "one_share_at_a_time (op # ops) st =
     (op_guard op st \<and> one_share_at_a_time ops (apply_op op st))"

definition shares_bounded :: "Sessions \<Rightarrow> bool" where
  "shares_bounded st =
     (\<forall>shareId shareSession. getShareSession st shareId = Some shareSession \<longrightarrow>
        length (ss_clients shareSession) \<le> 2 \<and> ss_status shareSession = Active)"

section \<open>The Redis service\<close>

text \<open>
  The commands of the Redis client that \<^verbatim>\<open>RedisService\<close> and the election use, as the
  Redis documentation defines them: a key holds a string and an optional expiry time
  (milliseconds), and an expired key reads as absent. A string value is kept by what it
  holds: raw text, a decimal counter, or JSON text (as the value \<^verbatim>\<open>JSON.parse\<close> returns
  for it).
\<close>

datatype json = JNum int | JStr string | JArr "json list" | JObj "(string \<times> json) list"

datatype RedisValue = Raw string | Counter int | Doc json

record RedisEntry =
  re_value :: RedisValue
  re_expiresAt :: "int option"

type_synonym Redis = "(string \<times> RedisEntry) list"

definition redis_lookup :: "int \<Rightarrow> Redis \<Rightarrow> string \<Rightarrow> RedisEntry option" where
  "redis_lookup now r key =
     (case map_of r key of
        None \<Rightarrow> None
      | Some e \<Rightarrow> (case re_expiresAt e of
                    None \<Rightarrow> Some e
                  | Some t \<Rightarrow> if now < t then Some e else None))"

definition redis_get :: "int \<Rightarrow> Redis \<Rightarrow> string \<Rightarrow> RedisValue option" where
  "redis_get now r key = map_option re_value (redis_lookup now r key)"

definition redis_setEx :: "int \<Rightarrow> string \<Rightarrow> int \<Rightarrow> RedisValue \<Rightarrow> Redis \<Rightarrow> Redis" where
  "redis_setEx now key seconds v r =
     AList.update key \<lparr>re_value = v, re_expiresAt = Some (now + seconds * 1000)\<rparr> r"


definition redis_expire :: "int \<Rightarrow> string \<Rightarrow> int \<Rightarrow> Redis \<Rightarrow> Redis" where
  "redis_expire now key seconds r =
     (case redis_lookup now r key of
        None \<Rightarrow> r
      | Some e \<Rightarrow> AList.update key (e\<lparr>re_expiresAt := Some (now + seconds * 1000)\<rparr>) r)"

definition redis_ttl :: "int \<Rightarrow> Redis \<Rightarrow> string \<Rightarrow> int" where
  "redis_ttl now r key =
     (case redis_lookup now r key of
        None \<Rightarrow> - 2
      | Some e \<Rightarrow> (case re_expiresAt e of
                    None \<Rightarrow> - 1
                  | Some t \<Rightarrow> (t - now + 500) div 1000))"

definition redis_incr :: "int \<Rightarrow> string \<Rightarrow> Redis \<Rightarrow> Redis" where
  "redis_incr now key r =
     (case redis_lookup now r key of
        None \<Rightarrow> AList.update key \<lparr>re_value = Counter 1, re_expiresAt = None\<rparr> r
      | Some e \<Rightarrow> (case re_value e of
                    Counter n \<Rightarrow> AList.update key (e\<lparr>re_value := Counter (n + 1)\<rparr>) r
                  | _ \<Rightarrow> r))"

section \<open>Rate limiting\<close>

record RateLimitResult =
  allowed :: bool
  remaining :: int
  resetAt :: int

text \<open>
  \<^verbatim>\<open>RedisService.checkRateLimit\<close>. Keys \<^verbatim>\<open>ratelimit:*\<close> are written by \<^verbatim>\<open>INCR\<close> only,
  so they hold counters.
\<close>

definition redis_checkRateLimit ::
  "int \<Rightarrow> int \<Rightarrow> string \<Rightarrow> int \<Rightarrow> Redis \<Rightarrow> RateLimitResult \<times> Redis" where
  "redis_checkRateLimit now windowSeconds identifier maxRequests r =
     (let key = ''ratelimit:'' @ identifier;
          currentCount = (case redis_get now r key of Some (Counter n) \<Rightarrow> n | _ \<Rightarrow> 0)
      in if currentCount \<ge> maxRequests
         then (\<lparr>allowed = False, remaining = 0,
                resetAt = now + redis_ttl now r key * 1000\<rparr>, r)
         else
           let r1 = redis_incr now key r;
               r2 = (if currentCount = 0 then redis_expire now key windowSeconds r1 else r1)
           in (\<lparr>allowed = True, remaining = maxRequests - currentCount - 1,
                resetAt = now + windowSeconds * 1000\<rparr>, r2))"

text \<open>
  \<^verbatim>\<open>StorageRepository.checkRateLimit\<close>: the Redis service when there is one, and the
  constant answer of the in-memory branch otherwise.
\<close>

definition checkRateLimit ::
  "int \<Rightarrow> int \<Rightarrow> string \<Rightarrow> int \<Rightarrow> Redis option \<Rightarrow> RateLimitResult \<times> Redis option" where
  "checkRateLimit now windowSeconds identifier maxRequests redisService =
     (case redisService of
        Some r \<Rightarrow>
          (let (res, r') = redis_checkRateLimit now windowSeconds identifier maxRequests r
           in (res, Some r'))
      | None \<Rightarrow>
          (\<lparr>allowed = True, remaining = maxRequests, resetAt = now + 60000\<rparr>, None))"

section \<open>Upload state\<close>

record AckInfo =
  ack_timestamp :: int
  ack_retries :: int

text \<open>
  The field \<^verbatim>\<open>pendingAcks\<close> of an upload: undefined, a \<^verbatim>\<open>Map\<close>, or the plain object
  that \<^verbatim>\<open>JSON.parse\<close> returns where a \<^verbatim>\<open>Map\<close> was serialized (it has no \<^verbatim>\<open>set\<close>,
  \<^verbatim>\<open>delete\<close> or \<^verbatim>\<open>size\<close>).
\<close>

datatype PendingAcks = AcksUndefined | AcksMap "(int \<times> AckInfo) list" | AcksObject

record FileUpload =
  fu_fileId :: string
  fu_fileName :: string
  fu_fileSize :: int
  fu_totalChunks :: int
  fu_uploadedChunks :: "int list"
  fu_clientId :: string
  fu_startTime :: int
  fu_lastUpdate :: int
  fu_status :: UploadStatus
  fu_chunkChecksums :: "(int \<times> string) list option"
  fu_pendingAcks :: PendingAcks
  fu_lastAckTime :: "int option"

text \<open>\<^verbatim>\<open>Set.add\<close>, \<^verbatim>\<open>new Set(array)\<close> and \<^verbatim>\<open>new Map(entries)\<close>.\<close>

definition set_add :: "'a \<Rightarrow> 'a list \<Rightarrow> 'a list" where
  "set_add x xs = (if x \<in> set xs then xs else xs @ [x])"

definition new_Set :: "'a list \<Rightarrow> 'a list" where
  "new_Set xs = fold set_add xs []"

definition new_Map :: "('k \<times> 'v) list \<Rightarrow> ('k \<times> 'v) list" where
  "new_Map entries = fold (\<lambda>(k, v). AList.update k v) entries []"

fun status_string :: "UploadStatus \<Rightarrow> string" where
  "status_string Uploading = ''uploading''"
| "status_string Paused = ''paused''"
| "status_string Completed = ''completed''"
| "status_string Failed = ''failed''"
| "status_string Cancelled = ''cancelled''"

definition string_status :: "string \<Rightarrow> UploadStatus option" where
  "string_status s =
     (if s = ''uploading'' then Some Uploading
      else if s = ''paused'' then Some Paused
      else if s = ''completed'' then Some Completed
      else if s = ''failed'' then Some Failed
      else if s = ''cancelled'' then Some Cancelled
      else None)"

text \<open>
  \<^verbatim>\<open>JSON.stringify\<close> of the object \<^verbatim>\<open>RedisService.setUploadState\<close> builds:
  \<^verbatim>\<open>{...upload, uploadedChunks: Array.from(...), chunkChecksums: entries or undefined}\<close>.
  An undefined property is left out. \<^verbatim>\<open>pendingAcks\<close> is spread as it is, and
  \<^verbatim>\<open>JSON.stringify\<close> writes a \<^verbatim>\<open>Map\<close>, which has no enumerable properties of its own,
  as \<^verbatim>\<open>{}\<close>.
\<close>

definition stringify_upload :: "FileUpload \<Rightarrow> json" where
  "stringify_upload upload =
     JObj ([(''fileId'', JStr (fu_fileId upload)),
            (''fileName'', JStr (fu_fileName upload)),
            (''fileSize'', JNum (fu_fileSize upload)),
            (''totalChunks'', JNum (fu_totalChunks upload)),
            (''uploadedChunks'', JArr (map JNum (fu_uploadedChunks upload))),
            (''clientId'', JStr (fu_clientId upload)),
            (''startTime'', JNum (fu_startTime upload)),
            (''lastUpdate'', JNum (fu_lastUpdate upload)),
            (''status'', JStr (status_string (fu_status upload)))]
           @ (case fu_chunkChecksums upload of
                None \<Rightarrow> []
              | Some checksums \<Rightarrow>
                  [(''chunkChecksums'',
                    JArr (map (\<lambda>(i, c). JArr [JNum i, JStr c]) checksums))])
           @ (case fu_pendingAcks upload of
                AcksUndefined \<Rightarrow> []
              | AcksMap acks \<Rightarrow> [(''pendingAcks'', JObj [])]
              | AcksObject \<Rightarrow> [(''pendingAcks'', JObj [])])
           @ (case fu_lastAckTime upload of
                None \<Rightarrow> []
              | Some t \<Rightarrow> [(''lastAckTime'', JNum t)]))"

definition setUploadState_redis :: "int \<Rightarrow> int \<Rightarrow> string \<Rightarrow> FileUpload \<Rightarrow> Redis \<Rightarrow> Redis" where
  "setUploadState_redis now ttl fileId upload r =
     redis_setEx now (''upload:'' @ fileId) ttl (Doc (stringify_upload upload)) r"

text \<open>Reading the properties of the parsed object; None where a field has another shape.\<close>

fun str_field :: "string \<Rightarrow> (string \<times> json) list \<Rightarrow> string option" where
  "str_field name props = (case map_of props name of Some (JStr s) \<Rightarrow> Some s | _ \<Rightarrow> None)"

fun num_field :: "string \<Rightarrow> (string \<times> json) list \<Rightarrow> int option" where
  "num_field name props = (case map_of props name of Some (JNum n) \<Rightarrow> Some n | _ \<Rightarrow> None)"

fun nums :: "json list \<Rightarrow> int list option" where
  "nums [] = Some []"
| "nums (JNum n # js) = map_option ((#) n) (nums js)"
| "nums (_ # js) = None"

fun checksum_entries :: "json list \<Rightarrow> (int \<times> string) list option" where
  "checksum_entries [] = Some []"
| "checksum_entries (JArr [JNum i, JStr c] # js) = map_option ((#) (i, c)) (checksum_entries js)"
| "checksum_entries (_ # js) = None"

text \<open>
  \<^verbatim>\<open>RedisService.getUploadState\<close>: \<^verbatim>\<open>uploadedChunks\<close> becomes a \<^verbatim>\<open>Set\<close> again and
  \<^verbatim>\<open>chunkChecksums\<close> a \<^verbatim>\<open>Map\<close>; every other field stays what \<^verbatim>\<open>JSON.parse\<close> returned.
\<close>

definition parse_upload :: "json \<Rightarrow> FileUpload option" where
  "parse_upload j =
     (case j of
        JObj props \<Rightarrow>
          (case (str_field ''fileId'' props, str_field ''fileName'' props,
                 num_field ''fileSize'' props, num_field ''totalChunks'' props,
                 str_field ''clientId'' props, num_field ''startTime'' props,
                 num_field ''lastUpdate'' props,
                 Option.bind (str_field ''status'' props) string_status,
                 (case map_of props ''uploadedChunks'' of
                    None \<Rightarrow> Some []
                  | Some (JArr js) \<Rightarrow> map_option new_Set (nums js)
                  | Some _ \<Rightarrow> None),
                 (case map_of props ''chunkChecksums'' of
                    None \<Rightarrow> Some []
                  | Some (JArr js) \<Rightarrow> map_option new_Map (checksum_entries js)
                  | Some _ \<Rightarrow> None)) of
             (Some fileId, Some fileName, Some fileSize, Some totalChunks, Some clientId,
              Some startTime, Some lastUpdate, Some status, Some chunks, Some checksums) \<Rightarrow>
               Some \<lparr>fu_fileId = fileId, fu_fileName = fileName, fu_fileSize = fileSize,
                     fu_totalChunks = totalChunks, fu_uploadedChunks = chunks,
                     fu_clientId = clientId, fu_startTime = startTime,
                     fu_lastUpdate = lastUpdate, fu_status = status,
                     fu_chunkChecksums = Some checksums,
                     fu_pendingAcks = (case map_of props ''pendingAcks'' of
                                         None \<Rightarrow> AcksUndefined
                                       | Some _ \<Rightarrow> AcksObject),
                     fu_lastAckTime = num_field ''lastAckTime'' props\<rparr>
           | _ \<Rightarrow> None)
      | _ \<Rightarrow> None)"

definition getUploadState_redis :: "int \<Rightarrow> string \<Rightarrow> Redis \<Rightarrow> FileUpload option" where
  "getUploadState_redis now fileId r =
     (case redis_get now r (''upload:'' @ fileId) of
        Some (Doc j) \<Rightarrow> parse_upload j
      | _ \<Rightarrow> None)"

text \<open>
  \<^verbatim>\<open>StorageRepository.setUploadState\<close> and \<^verbatim>\<open>getUploadState\<close>: every node keeps the
  uploads it wrote or read in its own map, and reads Redis only for a file its map lacks.
  \<open>ttl\<close> is \<^verbatim>\<open>TTL.UPLOAD_STATE\<close>.
\<close>

record UploadRepository =
  redisService :: "Redis option"
  fileUploads :: "(string \<times> FileUpload) list"

definition setUploadState ::
  "int \<Rightarrow> int \<Rightarrow> string \<Rightarrow> FileUpload \<Rightarrow> UploadRepository \<Rightarrow> UploadRepository" where
  "setUploadState now ttl fileId upload repo =
     \<lparr>redisService = map_option (setUploadState_redis now ttl fileId upload) (redisService repo),
      fileUploads = AList.update fileId upload (fileUploads repo)\<rparr>"

definition getUploadState ::
  "int \<Rightarrow> string \<Rightarrow> UploadRepository \<Rightarrow> FileUpload option \<times> UploadRepository" where
  "getUploadState now fileId repo =
     (case map_of (fileUploads repo) fileId of
        Some upload \<Rightarrow> (Some upload, repo)
      | None \<Rightarrow>
          (case redisService repo of
             None \<Rightarrow> (None, repo)
           | Some r \<Rightarrow>
               (case getUploadState_redis now fileId r of
                  None \<Rightarrow> (None, repo)
                | Some upload \<Rightarrow>
                    (Some upload,
                     repo\<lparr>fileUploads := AList.update fileId upload (fileUploads repo)\<rparr>))))"

text \<open>
  \<^verbatim>\<open>RedisService.getAllUploadStates\<close>: every live key \<^verbatim>\<open>upload:*\<close> that parses, except
  keys that contain \<^verbatim>\<open>:chunks:\<close>. \<^verbatim>\<open>StorageRepository.getAllUploadStates\<close> returns it
  when there is a Redis service, and the node's own map otherwise.
\<close>

fun str_includes :: "string \<Rightarrow> string \<Rightarrow> bool" where
  "str_includes sub [] = (sub = [])"
| "str_includes sub (c # cs) = (take (length sub) (c # cs) = sub \<or> str_includes sub cs)"

definition getAllUploadStates_redis :: "int \<Rightarrow> Redis \<Rightarrow> (string \<times> FileUpload) list" where
  "getAllUploadStates_redis now r =
     List.map_filter
       (\<lambda>(key, e).
          if take 7 key = ''upload:'' \<and> redis_lookup now r key \<noteq> None
             \<and> \<not> str_includes '':chunks:'' key
          then (case re_value e of
                  Doc j \<Rightarrow> map_option (\<lambda>upload. (drop 7 key, upload)) (parse_upload j)
                | _ \<Rightarrow> None)
          else None) r"

definition getAllUploadStates :: "int \<Rightarrow> UploadRepository \<Rightarrow> (string \<times> FileUpload) list" where
  "getAllUploadStates now repo =
     (case redisService repo of
        Some r \<Rightarrow> getAllUploadStates_redis now r
      | None \<Rightarrow> fileUploads repo)"

section \<open>The transfer engine\<close>

text \<open>
  The values of \<^verbatim>\<open>config/app.config.ts\<close> and \<^verbatim>\<open>TTL\<close> that the handlers read, with
  their defaults.
\<close>

record Config =
  maxFileSize :: int
  rateLimitUploads :: int
  rateLimitMessages :: int
  ackTimeout :: int
  maxRetries :: int
  maxConcurrentUploads :: int
  maxConcurrentDownloads :: int
  maxConcurrentTransfers :: int
  useNativeAddon :: bool
  ttlUploadState :: int
  ttlRateLimitWindow :: int

definition default_config :: Config where
  "default_config =
     \<lparr>maxFileSize = 1073741824, rateLimitUploads = 100, rateLimitMessages = 1000,
      ackTimeout = 10000, maxRetries = 3, maxConcurrentUploads = 10,
      maxConcurrentDownloads = 10, maxConcurrentTransfers = 5, useNativeAddon = False,
      ttlUploadState = 7200, ttlRateLimitWindow = 60\<rparr>"

text \<open>
  The state the socket handlers work on. The repository of upload states is as above.
  Sessions, shares and cancelled marks are kept in the maps of the embedded backend; with a
  Redis service the code keeps the same records under keys with a time to live.
  \<open>srv_filesSent\<close> is the counter of \<^verbatim>\<open>StatsService\<close>. Webhooks and console output are
  left out, and so is the rounded percentage of \<^verbatim>\<open>chunk-uploaded\<close>, a floating-point
  value.
\<close>

record Server =
  srv_sessions :: Sessions
  srv_repo :: UploadRepository
  srv_cancelledDownloads :: "(string \<times> string list) list"
  srv_filesSent :: nat

definition cb :: "bool \<Rightarrow> Event \<Rightarrow> Out list" where
  "cb hasCallback e = (if hasCallback then [(ToCallback, e)] else [])"

text \<open>The \<^verbatim>\<open>heartbeat\<close> handler.\<close>

definition heartbeat :: "Config \<Rightarrow> int \<Rightarrow> string \<Rightarrow> Server \<Rightarrow> Server \<times> Out list" where
  "heartbeat cfg now clientId srv =
     (let (rateLimit, redis') =
            checkRateLimit now (ttlRateLimitWindow cfg) (''heartbeat:'' @ clientId)
              (rateLimitMessages cfg) (redisService (srv_repo srv));
          srv0 = srv\<lparr>srv_repo := (srv_repo srv)\<lparr>redisService := redis'\<rparr>\<rparr>
      in if \<not> allowed rateLimit then (srv0, [(ToSocket, RateLimited (resetAt rateLimit))])
         else (case getClientSession (srv_sessions srv0) clientId of
                 None \<Rightarrow> (srv0, [])
               | Some session \<Rightarrow>
                   (srv0\<lparr>srv_sessions :=
                       setClientSession clientId (session\<lparr>cs_lastHeartbeat := now\<rparr>)
                         (srv_sessions srv0)\<rparr>,
                    [(ToSocket, HeartbeatAck)])))"

text \<open>
  The \<^verbatim>\<open>upload-init\<close> handler. \<open>fileId\<close> is the identifier
  \<^verbatim>\<open>file-<Date.now()>-<random>\<close> the handler generates. The result is the state the
  handler leaves, what it sent, and the error it threw, if any. The messages of the
  errors are written without the numbers they quote.
\<close>

record InitData =
  id_clientId :: string
  id_fileName :: string
  id_fileSize :: int
  id_totalChunks :: int

definition count_active :: "string \<Rightarrow> (string \<times> FileUpload) list \<Rightarrow> nat" where
  "count_active clientId uploads =
     length (filter (\<lambda>(fileId, u). fu_clientId u = clientId \<and> fu_status u = Uploading) uploads)"

fun accept_receivers ::
  "Config \<Rightarrow> string \<Rightarrow> (string \<times> FileUpload) list \<Rightarrow> string list \<Rightarrow> Sessions
     \<Rightarrow> Sessions \<times> string list" where
  "accept_receivers cfg fileId allUploads [] st = (st, [])"
| "accept_receivers cfg fileId allUploads (otherClientId # others) st =
     (case getClientSession st otherClientId of
        None \<Rightarrow> accept_receivers cfg fileId allUploads others st
      | Some otherSession \<Rightarrow>
          if int (length (cs_downloads otherSession)) \<ge> maxConcurrentDownloads cfg
          then accept_receivers cfg fileId allUploads others st
          else if int (length (cs_downloads otherSession))
                    + int (count_active otherClientId allUploads) \<ge> maxConcurrentTransfers cfg
          then accept_receivers cfg fileId allUploads others st
          else
            let st1 = setClientSession otherClientId
                        (otherSession\<lparr>cs_downloads := cs_downloads otherSession @ [fileId]\<rparr>) st;
                (st2, accepted) = accept_receivers cfg fileId allUploads others st1
            in (st2, otherClientId # accepted))"

definition upload_init ::
  "Config \<Rightarrow> int \<Rightarrow> string \<Rightarrow> InitData \<Rightarrow> Server \<Rightarrow> Server \<times> Out list \<times> Failure option" where
  "upload_init cfg now fileId data srv =
     (let (rateLimit, redis') =
            checkRateLimit now (ttlRateLimitWindow cfg) (''upload:'' @ id_clientId data)
              (rateLimitUploads cfg) (redisService (srv_repo srv));
          srv0 = srv\<lparr>srv_repo := (srv_repo srv)\<lparr>redisService := redis'\<rparr>\<rparr>
      in if \<not> allowed rateLimit
         then (srv0, [(ToSocket, RateLimited (resetAt rateLimit))], None)
         else
           let allUploads = getAllUploadStates now (srv_repo srv0);
               activeUploads = int (count_active (id_clientId data) allUploads);
               senderActiveDownloads =
                 (case getClientSession (srv_sessions srv0) (id_clientId data) of
                    None \<Rightarrow> 0
                  | Some senderSession \<Rightarrow> int (length (cs_downloads senderSession)))
           in if activeUploads \<ge> maxConcurrentUploads cfg
              then (srv0, [], Some (uploadFailed ''Too many concurrent uploads''))
              else if activeUploads + senderActiveDownloads \<ge> maxConcurrentTransfers cfg
              then (srv0, [], Some (uploadFailed ''Too many concurrent transfers''))
              else if id_fileSize data > maxFileSize cfg
              then (srv0, [], Some (AppError FILE_TOO_LARGE 413 ''File too large''))
              else
                let upload = \<lparr>fu_fileId = fileId, fu_fileName = id_fileName data,
                              fu_fileSize = id_fileSize data,
                              fu_totalChunks = id_totalChunks data, fu_uploadedChunks = [],
                              fu_clientId = id_clientId data, fu_startTime = now,
                              fu_lastUpdate = now, fu_status = Uploading,
                              fu_chunkChecksums = None, fu_pendingAcks = AcksUndefined,
                              fu_lastAckTime = None\<rparr>;
                    repo1 = setUploadState now (ttlUploadState cfg) fileId upload (srv_repo srv0);
                    allUploads1 = (case redisService repo1 of
                                     None \<Rightarrow> fileUploads repo1
                                   | Some r \<Rightarrow> allUploads);
                    clientSession = getClientSession (srv_sessions srv0) (id_clientId data);
                    shareId = (case clientSession of
                                 None \<Rightarrow> None
                               | Some session \<Rightarrow> cs_shareId session);
                    (sessions1, acceptedReceivers) =
                      (if truthy shareId then
                         (case getShareSession (srv_sessions srv0) (the shareId) of
                            None \<Rightarrow> (srv_sessions srv0, [])
                          | Some shareSession \<Rightarrow>
                              accept_receivers cfg fileId allUploads1
                                (filter (\<lambda>cid. cid \<noteq> id_clientId data) (ss_clients shareSession))
                                (srv_sessions srv0))
                       else (srv_sessions srv0, []));
                    srv1 = srv0\<lparr>srv_repo := repo1, srv_sessions := sessions1\<rparr>
                in if truthy shareId \<and>
                      (case getShareSession sessions1 (the shareId) of
                         None \<Rightarrow> False
                       | Some shareSession \<Rightarrow>
                           length (ss_clients shareSession) > 1 \<and> acceptedReceivers = [])
                   then (srv1, [],
                         Some (uploadFailed
                                 ''All receivers are busy (too many concurrent transfers)''))
                   else (srv1,
                         (ToSocket, UploadInitResponse fileId)
                           # map (\<lambda>receiverId. (ToClient receiverId,
                                    FileTransferStarted fileId (id_fileName data)
                                      (id_fileSize data) (id_totalChunks data)))
                                 acceptedReceivers,
                         None))"

text \<open>
  The \<^verbatim>\<open>upload-chunk\<close> handler. \<open>simdChecksum\<close> is the checksum of the native addon.
  The handler changes the upload object it read, which is the object the node's map holds:
  \<open>add_chunk\<close> returns that object as the handler leaves it, with the error thrown where
  \<^verbatim>\<open>pendingAcks\<close> is not a \<^verbatim>\<open>Map\<close>.
\<close>

record ChunkData =
  cd_fileId :: string
  cd_chunkIndex :: int
  cd_chunk :: string
  cd_clientId :: string

definition add_chunk ::
  "Config \<Rightarrow> (string \<Rightarrow> string) \<Rightarrow> int \<Rightarrow> ChunkData \<Rightarrow> FileUpload
     \<Rightarrow> FileUpload \<times> Failure option" where
  "add_chunk cfg simdChecksum now data upload =
     (if cd_chunkIndex data \<in> set (fu_uploadedChunks upload) then (upload, None)
      else
        let u1 = upload\<lparr>fu_uploadedChunks := fu_uploadedChunks upload @ [cd_chunkIndex data],
                        fu_lastUpdate := now\<rparr>;
            u2 = (if useNativeAddon cfg
                  then u1\<lparr>fu_chunkChecksums :=
                            Some (AList.update (cd_chunkIndex data) (simdChecksum (cd_chunk data))
                                    (case fu_chunkChecksums u1 of None \<Rightarrow> [] | Some m \<Rightarrow> m))\<rparr>
                  else u1);
            ack = \<lparr>ack_timestamp = now, ack_retries = 0\<rparr>
        in (case fu_pendingAcks u2 of
              AcksUndefined \<Rightarrow>
                (u2\<lparr>fu_pendingAcks := AcksMap [(cd_chunkIndex data, ack)]\<rparr>, None)
            | AcksMap acks \<Rightarrow>
                (u2\<lparr>fu_pendingAcks := AcksMap (AList.update (cd_chunkIndex data) ack acks)\<rparr>,
                 None)
            | AcksObject \<Rightarrow>
                (u2, Some (TypeError ''upload.pendingAcks.set is not a function''))))"

definition relay_chunk :: "Sessions \<Rightarrow> ChunkData \<Rightarrow> int \<Rightarrow> Out list" where
  "relay_chunk st data totalChunks =
     (case getClientSession st (cd_clientId data) of
        None \<Rightarrow> []
      | Some clientSession \<Rightarrow>
          if truthy (cs_shareId clientSession) then
            (case getShareSession st (the (cs_shareId clientSession)) of
               None \<Rightarrow> []
             | Some shareSession \<Rightarrow>
                 concat (map (\<lambda>otherClientId.
                   (case getClientSession st otherClientId of
                      None \<Rightarrow> []
                    | Some otherSession \<Rightarrow>
                        if cd_fileId data \<in> set (cs_downloads otherSession)
                        then [(ToClient otherClientId,
                                 ChunkReceived (cd_fileId data) (cd_chunkIndex data)
                                   (cd_chunk data) totalChunks),
                              (ToClient (cd_clientId data),
                                 ChunkAcknowledged (cd_fileId data) (cd_chunkIndex data))]
                        else []))
                   (filter (\<lambda>cid. cid \<noteq> cd_clientId data) (ss_clients shareSession))))
          else [])"

text \<open>
  What the handler sends for a chunk it accepted: \<^verbatim>\<open>chunk-uploaded\<close> to the sender, the
  relay, and the answer to the request.
\<close>

definition chunk_outs :: "bool \<Rightarrow> ChunkData \<Rightarrow> Sessions \<Rightarrow> FileUpload \<Rightarrow> Out list" where
  "chunk_outs hasCallback data st upload1 =
     (ToSocket, ChunkUploaded (cd_fileId data) (cd_chunkIndex data)
                  (length (fu_uploadedChunks upload1)) (fu_totalChunks upload1))
       # relay_chunk st data (fu_totalChunks upload1) @ cb hasCallback CallbackSuccess"

definition upload_chunk ::
  "Config \<Rightarrow> (string \<Rightarrow> string) \<Rightarrow> int \<Rightarrow> bool \<Rightarrow> ChunkData \<Rightarrow> Server
     \<Rightarrow> Server \<times> Out list \<times> Failure option" where
  "upload_chunk cfg simdChecksum now hasCallback data srv =
     (case getUploadState now (cd_fileId data) (srv_repo srv) of
        (None, repo1) \<Rightarrow>
          (srv\<lparr>srv_repo := repo1\<rparr>,
           cb hasCallback (CallbackError ''Upload not found or cancelled''),
           Some (uploadFailed ''Upload not found or cancelled''))
      | (Some upload, repo1) \<Rightarrow>
          if fu_status upload = Cancelled \<or> fu_status upload = Paused
          then (srv\<lparr>srv_repo := repo1\<rparr>,
                cb hasCallback (CallbackError ''Upload cancelled or paused''), None)
          else
            let (upload1, thrown) = add_chunk cfg simdChecksum now data upload;
                repo2 = repo1\<lparr>fileUploads :=
                          AList.update (cd_fileId data) upload1 (fileUploads repo1)\<rparr>
            in (case thrown of
                  Some e \<Rightarrow> (srv\<lparr>srv_repo := repo2\<rparr>, [], Some e)
                | None \<Rightarrow>
                    let outs = chunk_outs hasCallback data (srv_sessions srv) upload1
                    in if int (length (fu_uploadedChunks upload1)) = fu_totalChunks upload1
                          \<and> fu_status upload1 \<noteq> Completed
                       then
                         (srv\<lparr>srv_repo :=
                                 setUploadState now (ttlUploadState cfg) (cd_fileId data)
                                   (upload1\<lparr>fu_status := Completed\<rparr>) repo2,
                               srv_filesSent := srv_filesSent srv + 1,
                               srv_cancelledDownloads :=
                                 AList.delete (cd_fileId data) (srv_cancelledDownloads srv)\<rparr>,
                          outs @ [(ToSocket,
                                   UploadComplete (cd_fileId data) (fu_fileName upload1)
                                     (fu_fileSize upload1) (now - fu_startTime upload1))],
                          None)
                       else (srv\<lparr>srv_repo := repo2\<rparr>, outs, None)))"

text \<open>The \<^verbatim>\<open>chunk-acknowledged\<close> handler (receiver to sender).\<close>

definition chunk_acknowledged ::
  "Config \<Rightarrow> int \<Rightarrow> string \<Rightarrow> int \<Rightarrow> Server \<Rightarrow> Server \<times> Failure option" where
  "chunk_acknowledged cfg now fileId chunkIndex srv =
     (case getUploadState now fileId (srv_repo srv) of
        (None, repo1) \<Rightarrow> (srv\<lparr>srv_repo := repo1\<rparr>, None)
      | (Some upload, repo1) \<Rightarrow>
          (case fu_pendingAcks upload of
             AcksUndefined \<Rightarrow> (srv\<lparr>srv_repo := repo1\<rparr>, None)
           | AcksMap acks \<Rightarrow>
               (srv\<lparr>srv_repo :=
                      setUploadState now (ttlUploadState cfg) fileId
                        (upload\<lparr>fu_pendingAcks := AcksMap (AList.delete chunkIndex acks),
                                 fu_lastAckTime := Some now\<rparr>) repo1\<rparr>,
                None)
           | AcksObject \<Rightarrow>
               (srv\<lparr>srv_repo := repo1\<rparr>,
                Some (TypeError ''upload.pendingAcks.delete is not a function''))))"

text \<open>
  One upload in one round of the acknowledgement timer (\<^verbatim>\<open>startAckTimeoutChecker\<close>):
  the upload as the round leaves it, the chunks to retry and the chunks that failed; the
  round throws where \<^verbatim>\<open>pendingAcks\<close> cannot be iterated.
\<close>

fun scan_acks ::
  "Config \<Rightarrow> int \<Rightarrow> (int \<times> AckInfo) list \<Rightarrow> (int \<times> AckInfo) list \<times> int list \<times> int list" where
  "scan_acks cfg now [] = ([], [], [])"
| "scan_acks cfg now ((chunkIndex, ackInfo) # rest) =
     (let (acks, timedOutChunks, failedChunks) = scan_acks cfg now rest
      in if now - ack_timestamp ackInfo > ackTimeout cfg then
           (if ack_retries ackInfo \<ge> maxRetries cfg
            then ((chunkIndex, ackInfo) # acks, timedOutChunks, chunkIndex # failedChunks)
            else ((chunkIndex, ackInfo\<lparr>ack_retries := ack_retries ackInfo + 1,
                                        ack_timestamp := now\<rparr>) # acks,
                  chunkIndex # timedOutChunks, failedChunks))
         else ((chunkIndex, ackInfo) # acks, timedOutChunks, failedChunks))"

definition check_acks ::
  "Config \<Rightarrow> int \<Rightarrow> FileUpload \<Rightarrow> Failure + (FileUpload \<times> int list \<times> int list)" where
  "check_acks cfg now upload =
     (if fu_status upload \<noteq> Uploading then Inr (upload, [], [])
      else case fu_pendingAcks upload of
        AcksUndefined \<Rightarrow> Inr (upload, [], [])
      | AcksObject \<Rightarrow> Inl (TypeError ''upload.pendingAcks is not iterable'')
      | AcksMap acks \<Rightarrow>
          if acks = [] then Inr (upload, [], [])
          else
            let (acks', timedOutChunks, failedChunks) = scan_acks cfg now acks;
                upload1 = upload\<lparr>fu_pendingAcks := AcksMap acks'\<rparr>
            in if failedChunks \<noteq> []
               then Inr (upload1\<lparr>fu_status := Failed\<rparr>, timedOutChunks, failedChunks)
               else Inr (upload1, timedOutChunks, failedChunks))"

section \<open>Leader election\<close>








definition is_chunk_received :: "Out \<Rightarrow> bool" where
  "is_chunk_received out =
     (case snd out of ChunkReceived fileId chunkIndex chunk totalChunks \<Rightarrow> True | _ \<Rightarrow> False)"

definition is_upload_complete :: "Out \<Rightarrow> bool" where
  "is_upload_complete out =
     (case snd out of UploadComplete fileId fileName fileSize duration \<Rightarrow> True | _ \<Rightarrow> False)"

section \<open>Example states\<close>

text \<open>
  Clients A (socket s1) and B (socket s2) in share S, B with the given files among its
  downloads; file F of 48 bytes, uploaded by A since time 0; a server that holds them.
\<close>

definition session_of :: "string \<Rightarrow> string \<Rightarrow> string list \<Rightarrow> ClientSession" where
  "session_of clientId socketId downloads =
     \<lparr>cs_clientId = clientId, cs_socketId = socketId, cs_nodeId = None, cs_connected = True,
      cs_lastHeartbeat = 0, cs_uploads = [], cs_downloads = downloads,
      cs_shareId = Some ''S''\<rparr>"

definition sessions_AB :: "string list \<Rightarrow> Sessions" where
  "sessions_AB downloadsB =
     \<lparr>clientSessions = [(''A'', session_of ''A'' ''s1'' []),
                        (''B'', session_of ''B'' ''s2'' downloadsB)],
      shareSessions = [(''S'', \<lparr>ss_shareId = ''S'', ss_createdAt = 0, ss_lastActivity = 0,
                                ss_clients = [''A'', ''B''], ss_status = Active\<rparr>)]\<rparr>"

definition upload_F :: "int \<Rightarrow> int list \<Rightarrow> PendingAcks \<Rightarrow> FileUpload" where
  "upload_F totalChunks chunks acks =
     \<lparr>fu_fileId = ''F'', fu_fileName = ''x'', fu_fileSize = 48, fu_totalChunks = totalChunks,
      fu_uploadedChunks = chunks, fu_clientId = ''A'', fu_startTime = 0, fu_lastUpdate = 0,
      fu_status = Uploading, fu_chunkChecksums = None, fu_pendingAcks = acks,
      fu_lastAckTime = None\<rparr>"

definition server_AB ::
  "Redis option \<Rightarrow> string list \<Rightarrow> (string \<times> FileUpload) list \<Rightarrow> Server" where
  "server_AB redis downloadsB uploads =
     \<lparr>srv_sessions = sessions_AB downloadsB,
      srv_repo = \<lparr>redisService = redis, fileUploads = uploads\<rparr>,
      srv_cancelledDownloads = [], srv_filesSent = 0\<rparr>"

definition chunk_F :: "int \<Rightarrow> ChunkData" where
  "chunk_F i = \<lparr>cd_fileId = ''F'', cd_chunkIndex = i, cd_chunk = ''data'', cd_clientId = ''A''\<rparr>"


text \<open>
  File F with chunks 0 and 1 uploaded and chunk 1 never acknowledged, after the rounds of
  the acknowledgement timer at the given times.
\<close>

definition ack_round :: "int \<Rightarrow> FileUpload \<Rightarrow> FileUpload" where
  "ack_round now upload =
     (case check_acks default_config now upload of
        Inl e \<Rightarrow> upload
      | Inr (upload', timedOutChunks, failedChunks) \<Rightarrow> upload')"

definition failed_F :: FileUpload where
  "failed_F =
     ack_round 40004 (ack_round 30003 (ack_round 20002 (ack_round 10001
       (upload_F 3 [0, 1] (AcksMap [(1, \<lparr>ack_timestamp = 0, ack_retries = 0\<rparr>)])))))"


text \<open>
  Two nodes of a cluster: the first wrote the upload F (chunks 0 and 1, chunk 1 not yet
  acknowledged) at time 0; the second has nothing in its own map and the same Redis.
\<close>

definition node1_repo :: UploadRepository where
  "node1_repo =
     setUploadState 0 7200 ''F''
       (upload_F 3 [0, 1] (AcksMap [(1, \<lparr>ack_timestamp = 0, ack_retries = 0\<rparr>)]))
       \<lparr>redisService = Some [], fileUploads = []\<rparr>"

definition node2_repo :: UploadRepository where
  "node2_repo = \<lparr>redisService = redisService node1_repo, fileUploads = []\<rparr>"

section \<open>Shares: capacity and membership\<close>

lemmas session_defs = getShareSession_def setShareSession_def deleteShareSession_def
  getClientSession_def setClientSession_def empty_sessions_def Let_def

lemmas eval_defs = session_defs createShare_def joinShare_def disconnect_def register_def
  badRequest_def notFound_def conflict_def shareSessionFull_def

lemma not_Inactive: "(s \<noteq> Inactive) = (s = Active)"
  by (cases s) auto

lemma getShare_setShare:
  "getShareSession (setShareSession k v st) k' = (if k' = k then Some v else getShareSession st k')"
  by (simp add: getShareSession_def setShareSession_def update_conv')

lemma getShare_setClient [simp]:
  "getShareSession (setClientSession k v st) k' = getShareSession st k'"
  by (simp add: getShareSession_def setClientSession_def)

lemma getShare_deleteShare:
  "getShareSession (deleteShareSession k st) k' = (if k' = k then None else getShareSession st k')"
  by (simp add: getShareSession_def deleteShareSession_def delete_conv')

lemma createShare_shares:
  assumes "createShare now generated clientId custom st = Inr (st', outs, sid)"
  shows "\<exists>sh. ss_clients sh = [clientId] \<and> ss_status sh = Active \<and>
           (\<forall>k. getShareSession st' k = (if k = sid then Some sh else getShareSession st k))"
  using assms
  by (auto simp: createShare_def Let_def getShare_setShare split: if_splits option.splits)

lemma joinShare_shares:
  assumes "joinShare now shareId clientId st = Inr (st', outs, n)"
  shows "\<exists>sh. getShareSession st shareId = Some sh \<and> length (ss_clients sh) < 2 \<and> ss_status sh = Active \<and>
           (\<forall>k. getShareSession st' k =
              (if k = shareId then Some (sh\<lparr>ss_clients := ss_clients sh @ [clientId], ss_lastActivity := now\<rparr>)
               else getShareSession st k))"
  using assms
  by (auto simp: joinShare_def Let_def getShare_setShare not_Inactive split: if_splits option.splits)

lemma disconnect_shares:
  "getShareSession (fst (disconnect socketId st)) k = Some sh' \<Longrightarrow>
     \<exists>sh. getShareSession st k = Some sh \<and> set (ss_clients sh') \<subseteq> set (ss_clients sh) \<and>
          length (ss_clients sh') \<le> length (ss_clients sh) \<and> ss_status sh' = ss_status sh"
  by (auto simp: disconnect_def Let_def getShare_setShare getShare_deleteShare
           split: if_splits option.splits prod.splits)

lemma register_shares [simp]:
  "getShareSession (register now nodeId socketId clientId st) k = getShareSession st k"
  by (simp add: register_def)

lemma shares_bounded_apply_op:
  assumes "shares_bounded st" shows "shares_bounded (apply_op op st)"
proof (cases op)
  case (Register now nodeId socketId clientId)
  with assms show ?thesis by (simp add: shares_bounded_def)
next
  case (CreateShare now generated clientId custom)
  show ?thesis
  proof (cases "createShare now generated clientId custom st")
    case (Inl e)
    with CreateShare assms show ?thesis by simp
  next
    case (Inr r)
    obtain st' outs sid where r: "r = (st', outs, sid)" by (cases r)
    from createShare_shares[OF Inr[unfolded r]] obtain sh where
      sh: "ss_clients sh = [clientId]" "ss_status sh = Active"
          "\<And>k. getShareSession st' k = (if k = sid then Some sh else getShareSession st k)"
      by blast
    have "shares_bounded st'"
      using assms sh by (auto simp: shares_bounded_def split: if_splits)
    with CreateShare Inr r show ?thesis by simp
  qed
next
  case (JoinShare now shareId clientId)
  show ?thesis
  proof (cases "joinShare now shareId clientId st")
    case (Inl e)
    with JoinShare assms show ?thesis by simp
  next
    case (Inr r)
    obtain st' outs n where r: "r = (st', outs, n)" by (cases r)
    from joinShare_shares[OF Inr[unfolded r]] obtain sh where
      sh: "getShareSession st shareId = Some sh" "length (ss_clients sh) < 2" "ss_status sh = Active"
          "\<And>k. getShareSession st' k =
              (if k = shareId then Some (sh\<lparr>ss_clients := ss_clients sh @ [clientId], ss_lastActivity := now\<rparr>)
               else getShareSession st k)"
      by blast
    have "shares_bounded st'"
      using assms sh by (auto simp: shares_bounded_def split: if_splits)
    with JoinShare Inr r show ?thesis by simp
  qed
next
  case (Disconnect socketId)
  show ?thesis
    unfolding shares_bounded_def
  proof (intro allI impI)
    fix k sh' assume "getShareSession (apply_op op st) k = Some sh'"
    then have "getShareSession (fst (disconnect socketId st)) k = Some sh'"
      using Disconnect by simp
    from disconnect_shares[OF this] obtain sh where
      "getShareSession st k = Some sh" "length (ss_clients sh') \<le> length (ss_clients sh)"
      "ss_status sh' = ss_status sh" by blast
    with assms show "length (ss_clients sh') \<le> 2 \<and> ss_status sh' = Active"
      by (fastforce simp: shares_bounded_def)
  qed
qed

lemma shares_bounded_run: "shares_bounded st \<Longrightarrow> shares_bounded (run ops st)"
  by (induction ops arbitrary: st) (simp_all add: shares_bounded_apply_op)

lemma shares_bounded_empty: "shares_bounded empty_sessions"
  by (simp add: shares_bounded_def empty_sessions_def getShareSession_def)

text \<open>
  Claim C8. In every state that create-share, join-share, register and disconnect
  requests lead to from the empty store, a join request (with both fields present) for a
  share that has two participants is rejected with status 409 and code SHARE_SESSION_FULL
  and leaves the state as it was, a join request for a share that does not exist is
  rejected with status 404, and every share has at most two clients.
\<close>

theorem joinShare_capacity:
  assumes "shareId \<noteq> []" and "clientId \<noteq> []" and "st = run ops empty_sessions"
  shows "(\<forall>shareSession. getShareSession st shareId = Some shareSession \<and>
            length (ss_clients shareSession) = 2 \<longrightarrow>
            joinShare now shareId clientId st =
              Inl (AppError SHARE_SESSION_FULL 409 (''Share session is full: '' @ shareId)) \<and>
            apply_op (JoinShare now shareId clientId) st = st)
       \<and> (getShareSession st shareId = None \<longrightarrow>
            joinShare now shareId clientId st =
              Inl (AppError NOT_FOUND 404 ''Share session not found not found''))
       \<and> (\<forall>k shareSession. getShareSession st k = Some shareSession \<longrightarrow>
            length (ss_clients shareSession) \<le> 2)"
proof -
  have b: "shares_bounded st"
    using assms(3) shares_bounded_run[OF shares_bounded_empty] by simp
  have full: "\<And>sh. getShareSession st shareId = Some sh \<Longrightarrow> length (ss_clients sh) = 2 \<Longrightarrow>
      joinShare now shareId clientId st =
        Inl (AppError SHARE_SESSION_FULL 409 (''Share session is full: '' @ shareId))"
    using b assms(1,2) by (auto simp: joinShare_def shares_bounded_def shareSessionFull_def)
  have missing: "getShareSession st shareId = None \<Longrightarrow>
      joinShare now shareId clientId st =
        Inl (AppError NOT_FOUND 404 ''Share session not found not found'')"
    using assms(1,2) by (simp add: joinShare_def notFound_def)
  have bound: "\<And>k sh. getShareSession st k = Some sh \<Longrightarrow> length (ss_clients sh) \<le> 2"
    using b by (auto simp: shares_bounded_def)
  show ?thesis using full missing bound by auto
qed

theorem joinShare_capacity_witness:
  "joinShare 2 ''S'' ''C''
      (run [CreateShare 0 ''share-0-a'' ''A'' (Some ''S''), JoinShare 1 ''S'' ''B''] empty_sessions)
     = Inl (AppError SHARE_SESSION_FULL 409 ''Share session is full: S'')
   \<and> joinShare 2 ''T'' ''C''
      (run [CreateShare 0 ''share-0-a'' ''A'' (Some ''S''), JoinShare 1 ''S'' ''B''] empty_sessions)
     = Inl (AppError NOT_FOUND 404 ''Share session not found not found'')
   \<and> map (\<lambda>(k, s). (k, ss_clients s)) (shareSessions
      (run [CreateShare 0 ''share-0-a'' ''A'' (Some ''S''), JoinShare 1 ''S'' ''B''] empty_sessions))
     = [(''S'', [''A'', ''B''])]"
proof -
  let ?ops = "[CreateShare 0 ''share-0-a'' ''A'' (Some ''S''), JoinShare 1 ''S'' ''B'']"
  have s: "getShareSession (run ?ops empty_sessions) ''S'' =
      Some \<lparr>ss_shareId = ''S'', ss_createdAt = 0, ss_lastActivity = 1,
            ss_clients = [''A'', ''B''], ss_status = Active\<rparr>"
    by (simp add: eval_defs)
  have t: "getShareSession (run ?ops empty_sessions) ''T'' = None"
    by (simp add: eval_defs)
  have l: "map (\<lambda>(k, s). (k, ss_clients s)) (shareSessions (run ?ops empty_sessions))
             = [(''S'', [''A'', ''B''])]"
    by (simp add: eval_defs)
  from joinShare_capacity[of "''S''" "''C''" "run ?ops empty_sessions" ?ops 2]
       joinShare_capacity[of "''T''" "''C''" "run ?ops empty_sessions" ?ops 2] s t l
  show ?thesis by simp
qed

lemma listed_iff: "listed st clientId = (\<exists>shareId. in_share st shareId clientId)"
proof
  assume "listed st clientId"
  then show "\<exists>shareId. in_share st shareId clientId"
    by (auto simp: listed_def list_ex_iff)
next
  assume "\<exists>shareId. in_share st shareId clientId"
  then obtain k where k: "in_share st k clientId" by blast
  then have "k \<in> fst ` set (shareSessions st)"
    by (auto simp: in_share_def getShareSession_def split: option.splits dest: map_of_SomeD intro: rev_image_eqI)
  with k show "listed st clientId"
    by (auto simp: listed_def list_ex_iff)
qed

lemma one_share_apply_op:
  assumes inv: "at_most_one_share st" and g: "op_guard op st"
  shows "at_most_one_share (apply_op op st)"
proof (cases op)
  case (Register now nodeId socketId clientId)
  with inv show ?thesis by (simp add: at_most_one_share_def in_share_def)
next
  case (CreateShare now generated clientId custom)
  with g have nl: "\<And>k. \<not> in_share st k clientId" by (simp add: listed_iff)
  show ?thesis
  proof (cases "createShare now generated clientId custom st")
    case (Inl e)
    with CreateShare inv show ?thesis by simp
  next
    case (Inr r)
    obtain st' outs sid where r: "r = (st', outs, sid)" by (cases r)
    from createShare_shares[OF Inr[unfolded r]] obtain sh where
      sh: "ss_clients sh = [clientId]"
          "\<And>k. getShareSession st' k = (if k = sid then Some sh else getShareSession st k)"
      by blast
    have eq: "\<And>k c. in_share st' k c = (if k = sid then c = clientId else in_share st k c)"
      using sh by (simp add: in_share_def)
    have "at_most_one_share st'"
      unfolding at_most_one_share_def
    proof (intro allI impI)
      fix c s1 s2 assume a: "in_share st' s1 c \<and> in_share st' s2 c"
      show "s1 = s2"
      proof (cases "c = clientId")
        case True
        with a nl show ?thesis by (auto simp: eq split: if_splits)
      next
        case False
        with a inv show ?thesis by (auto simp: eq at_most_one_share_def split: if_splits)
      qed
    qed
    with CreateShare Inr r show ?thesis by simp
  qed
next
  case (JoinShare now shareId clientId)
  with g have nl: "\<And>k. \<not> in_share st k clientId" by (simp add: listed_iff)
  show ?thesis
  proof (cases "joinShare now shareId clientId st")
    case (Inl e)
    with JoinShare inv show ?thesis by simp
  next
    case (Inr r)
    obtain st' outs n where r: "r = (st', outs, n)" by (cases r)
    from joinShare_shares[OF Inr[unfolded r]] obtain sh where
      sh: "getShareSession st shareId = Some sh"
          "\<And>k. getShareSession st' k =
              (if k = shareId then Some (sh\<lparr>ss_clients := ss_clients sh @ [clientId], ss_lastActivity := now\<rparr>)
               else getShareSession st k)"
      by blast
    have eq: "\<And>k c. in_share st' k c =
                (if k = shareId then (in_share st k c \<or> c = clientId) else in_share st k c)"
      using sh by (auto simp: in_share_def)
    have "at_most_one_share st'"
      unfolding at_most_one_share_def
    proof (intro allI impI)
      fix c s1 s2 assume a: "in_share st' s1 c \<and> in_share st' s2 c"
      show "s1 = s2"
      proof (cases "c = clientId")
        case True
        with a nl show ?thesis by (auto simp: eq split: if_splits)
      next
        case False
        with a inv show ?thesis by (auto simp: eq at_most_one_share_def split: if_splits)
      qed
    qed
    with JoinShare Inr r show ?thesis by simp
  qed
next
  case (Disconnect socketId)
  have sub: "\<And>k c. in_share (apply_op op st) k c \<Longrightarrow> in_share st k c"
  proof -
    fix k c assume "in_share (apply_op op st) k c"
    then obtain sh' where s': "getShareSession (fst (disconnect socketId st)) k = Some sh'"
      and c: "c \<in> set (ss_clients sh')"
      using Disconnect by (auto simp: in_share_def split: option.splits)
    from disconnect_shares[OF s'] c show "in_share st k c"
      by (auto simp: in_share_def)
  qed
  show ?thesis
    unfolding at_most_one_share_def using inv sub
    by (meson at_most_one_share_def)
qed

lemma one_share_run:
  "at_most_one_share st \<Longrightarrow> one_share_at_a_time ops st \<Longrightarrow> at_most_one_share (run ops st)"
  by (induction ops arbitrary: st) (simp_all add: one_share_apply_op)

text \<open>
  Claim C9, as the code has it. Neither create-share nor join-share looks for the client
  in other shares, so a client that creates two shares is listed in both. What holds: in
  a sequence of register, create-share, join-share and disconnect requests in which no
  client creates or joins a share while some share lists it, no client is ever listed in
  two distinct shares.
\<close>

theorem one_share_per_client:
  assumes "one_share_at_a_time ops empty_sessions"
  shows "at_most_one_share (run ops empty_sessions)"
proof -
  have "at_most_one_share empty_sessions"
    by (simp add: at_most_one_share_def in_share_def empty_sessions_def getShareSession_def)
  then show ?thesis using assms by (rule one_share_run)
qed

theorem one_share_per_client_witness:
  "one_share_at_a_time
     [Register 0 None ''s1'' ''A'', CreateShare 1 ''share-1-a'' ''A'' None,
      JoinShare 2 ''share-1-a'' ''B'', Disconnect ''s1'', CreateShare 3 ''share-3-b'' ''A'' None]
     empty_sessions
   \<and> at_most_one_share (run
     [Register 0 None ''s1'' ''A'', CreateShare 1 ''share-1-a'' ''A'' None,
      JoinShare 2 ''share-1-a'' ''B'', Disconnect ''s1'', CreateShare 3 ''share-3-b'' ''A'' None]
     empty_sessions)"
proof -
  have h: "one_share_at_a_time
     [Register 0 None ''s1'' ''A'', CreateShare 1 ''share-1-a'' ''A'' None,
      JoinShare 2 ''share-1-a'' ''B'', Disconnect ''s1'', CreateShare 3 ''share-3-b'' ''A'' None]
     empty_sessions"
    by (simp add: eval_defs in_share_def listed_def)
  from one_share_per_client[OF h] h show ?thesis by simp
qed

text \<open>
  Claim C9 as stated fails: client A creates two shares, one after the other, and both
  list it.
\<close>

theorem two_shares_counterexample:
  "\<not> at_most_one_share
       (run [CreateShare 0 ''share-0-a'' ''A'' None, CreateShare 1 ''share-1-b'' ''A'' None]
            empty_sessions)"
proof
  let ?st = "run [CreateShare 0 ''share-0-a'' ''A'' None, CreateShare 1 ''share-1-b'' ''A'' None]
            empty_sessions"
  assume a: "at_most_one_share ?st"
  have "in_share ?st ''share-0-a'' ''A''" "in_share ?st ''share-1-b'' ''A''"
    by (simp_all add: eval_defs in_share_def)
  with a have "''share-0-a'' = ''share-1-b''"
    unfolding at_most_one_share_def by blast
  then show False by simp
qed

section \<open>The upload-chunk handler\<close>

lemmas redis_defs = redis_lookup_def redis_get_def redis_setEx_def
  redis_expire_def redis_ttl_def redis_incr_def

lemmas example_defs = session_of_def sessions_AB_def upload_F_def server_AB_def chunk_F_def
  default_config_def

lemmas engine_defs = upload_chunk_def chunk_outs_def add_chunk_def relay_chunk_def
  getUploadState_def setUploadState_def cb_def session_defs example_defs update_conv'




lemma add_chunk_fields:
  assumes "add_chunk cfg cs now data u = (u1, t)"
  shows "fu_totalChunks u1 = fu_totalChunks u" "fu_status u1 = fu_status u"
    "fu_fileName u1 = fu_fileName u" "fu_fileSize u1 = fu_fileSize u"
    "fu_startTime u1 = fu_startTime u"
  using assms
  by (auto simp: add_chunk_def Let_def split: if_splits PendingAcks.splits)




lemma relay_chunk_elems:
  assumes "out \<in> set (relay_chunk st data n)"
  shows "(\<exists>c. out = (ToClient c, ChunkReceived (cd_fileId data) (cd_chunkIndex data) (cd_chunk data) n))
         \<or> out = (ToClient (cd_clientId data), ChunkAcknowledged (cd_fileId data) (cd_chunkIndex data))"
proof (cases "getClientSession st (cd_clientId data)")
  case None
  with assms show ?thesis by (simp add: relay_chunk_def)
next
  case (Some clientSession)
  show ?thesis
  proof (cases "truthy (cs_shareId clientSession)")
    case False
    with Some assms show ?thesis by (simp add: relay_chunk_def)
  next
    case True
    show ?thesis
    proof (cases "getShareSession st (the (cs_shareId clientSession))")
      case None
      with Some True assms show ?thesis by (simp add: relay_chunk_def)
    next
      case (Some shareSession)
      with \<open>getClientSession st (cd_clientId data) = Some clientSession\<close> True assms
      show ?thesis by (auto simp: relay_chunk_def split: option.splits if_splits)
    qed
  qed
qed

lemma relay_chunk_not_complete: "out \<in> set (relay_chunk st data n) \<Longrightarrow> \<not> is_upload_complete out"
  by (drule relay_chunk_elems) (auto simp: is_upload_complete_def)

lemma cb_not_complete: "out \<in> set (cb h CallbackSuccess) \<Longrightarrow> \<not> is_upload_complete out"
  by (auto simp: cb_def is_upload_complete_def split: if_splits)

lemma chunk_outs_not_complete: "out \<in> set (chunk_outs h data st u) \<Longrightarrow> \<not> is_upload_complete out"
  by (auto simp: chunk_outs_def dest: relay_chunk_not_complete cb_not_complete)
     (simp add: is_upload_complete_def)



lemma upload_chunk_thrown:
  assumes "getUploadState now (cd_fileId data) (srv_repo srv) = (Some upload, repo1)"
      and "fu_status upload \<noteq> Cancelled" and "fu_status upload \<noteq> Paused"
      and "add_chunk cfg cs now data upload = (upload1, Some e)"
  shows "upload_chunk cfg cs now h data srv =
           (srv\<lparr>srv_repo := repo1\<lparr>fileUploads :=
                    AList.update (cd_fileId data) upload1 (fileUploads repo1)\<rparr>\<rparr>, [], Some e)"
  using assms by (simp add: upload_chunk_def)

lemma upload_chunk_accepted:
  assumes "getUploadState now (cd_fileId data) (srv_repo srv) = (Some upload, repo1)"
      and "fu_status upload \<noteq> Cancelled" and "fu_status upload \<noteq> Paused"
      and "add_chunk cfg cs now data upload = (upload1, None)"
  shows "upload_chunk cfg cs now h data srv =
     (if int (length (fu_uploadedChunks upload1)) = fu_totalChunks upload1
         \<and> fu_status upload1 \<noteq> Completed
      then (srv\<lparr>srv_repo :=
                   setUploadState now (ttlUploadState cfg) (cd_fileId data)
                     (upload1\<lparr>fu_status := Completed\<rparr>)
                     (repo1\<lparr>fileUploads :=
                        AList.update (cd_fileId data) upload1 (fileUploads repo1)\<rparr>),
                 srv_filesSent := srv_filesSent srv + 1,
                 srv_cancelledDownloads :=
                   AList.delete (cd_fileId data) (srv_cancelledDownloads srv)\<rparr>,
            chunk_outs h data (srv_sessions srv) upload1
              @ [(ToSocket, UploadComplete (cd_fileId data) (fu_fileName upload1)
                              (fu_fileSize upload1) (now - fu_startTime upload1))],
            None)
      else (srv\<lparr>srv_repo := repo1\<lparr>fileUploads :=
                    AList.update (cd_fileId data) upload1 (fileUploads repo1)\<rparr>\<rparr>,
            chunk_outs h data (srv_sessions srv) upload1, None))"
  using assms by (simp add: upload_chunk_def Let_def)

lemma stored_setUploadState [simp]:
  "map_of (fileUploads (setUploadState now ttl f u repo)) k =
     (if k = f then Some u else map_of (fileUploads repo) k)"
  by (simp add: setUploadState_def update_conv')

text \<open>
  Claim C1, as the code has it. The handler looks at the chunk count only: when it has
  accepted a chunk of an upload whose status is uploading, the status it leaves is
  completed exactly when the number of uploaded chunks equals \<^verbatim>\<open>totalChunks\<close>, whether
  acknowledgements are pending or not. On that transition it sends \<^verbatim>\<open>upload-complete\<close>
  to the sender, adds one to the counter of files sent and removes the cancelled marks of
  the file; otherwise the status stays uploading, no \<^verbatim>\<open>upload-complete\<close> is sent and
  the counter and the marks stay as they were.
\<close>

theorem completion_transition:
  assumes found: "fst (getUploadState now (cd_fileId data) (srv_repo srv)) = Some upload"
      and uploading: "fu_status upload = Uploading"
      and result: "upload_chunk cfg simdChecksum now hasCallback data srv = (srv', outs, None)"
  shows "\<exists>upload'. map_of (fileUploads (srv_repo srv')) (cd_fileId data) = Some upload' \<and>
           (fu_status upload' = Completed \<longleftrightarrow>
              int (length (fu_uploadedChunks upload')) = fu_totalChunks upload') \<and>
           (fu_status upload' = Completed \<longrightarrow>
              (ToSocket, UploadComplete (cd_fileId data) (fu_fileName upload)
                           (fu_fileSize upload) (now - fu_startTime upload)) \<in> set outs \<and>
              srv_filesSent srv' = srv_filesSent srv + 1 \<and>
              map_of (srv_cancelledDownloads srv') (cd_fileId data) = None) \<and>
           (fu_status upload' \<noteq> Completed \<longrightarrow>
              fu_status upload' = Uploading \<and>
              (\<forall>out \<in> set outs. \<not> is_upload_complete out) \<and>
              srv_filesSent srv' = srv_filesSent srv \<and>
              srv_cancelledDownloads srv' = srv_cancelledDownloads srv)"
proof -
  obtain repo1 where g: "getUploadState now (cd_fileId data) (srv_repo srv) = (Some upload, repo1)"
    using found by (cases "getUploadState now (cd_fileId data) (srv_repo srv)") auto
  have s: "fu_status upload \<noteq> Cancelled" "fu_status upload \<noteq> Paused"
    using uploading by simp_all
  obtain upload1 t where a: "add_chunk cfg simdChecksum now data upload = (upload1, t)"
    by (cases "add_chunk cfg simdChecksum now data upload")
  have t: "t = None"
  proof (cases t)
    case (Some e)
    with upload_chunk_thrown[OF g s a[unfolded Some]] result show ?thesis by simp
  qed simp
  note f = add_chunk_fields[OF a]
  note acc = upload_chunk_accepted[OF g s a[unfolded t], of hasCallback]
  show ?thesis
  proof (cases "int (length (fu_uploadedChunks upload1)) = fu_totalChunks upload1")
    case True
    with acc result f uploading have
      srv': "srv' = srv\<lparr>srv_repo :=
                   setUploadState now (ttlUploadState cfg) (cd_fileId data)
                     (upload1\<lparr>fu_status := Completed\<rparr>)
                     (repo1\<lparr>fileUploads :=
                        AList.update (cd_fileId data) upload1 (fileUploads repo1)\<rparr>),
                 srv_filesSent := srv_filesSent srv + 1,
                 srv_cancelledDownloads :=
                   AList.delete (cd_fileId data) (srv_cancelledDownloads srv)\<rparr>"
      and outs: "outs = chunk_outs hasCallback data (srv_sessions srv) upload1
              @ [(ToSocket, UploadComplete (cd_fileId data) (fu_fileName upload1)
                              (fu_fileSize upload1) (now - fu_startTime upload1))]"
      by simp_all
    show ?thesis
      apply (rule exI[of _ "upload1\<lparr>fu_status := Completed\<rparr>"])
      using True f by (simp add: srv' outs delete_conv')
  next
    case False
    with acc result have
      srv': "srv' = srv\<lparr>srv_repo := repo1\<lparr>fileUploads :=
                    AList.update (cd_fileId data) upload1 (fileUploads repo1)\<rparr>\<rparr>"
      and outs: "outs = chunk_outs hasCallback data (srv_sessions srv) upload1"
      by simp_all
    show ?thesis
      apply (rule exI[of _ upload1])
      using False f uploading chunk_outs_not_complete
      by (auto simp: srv' outs update_conv')
  qed
qed

theorem completion_transition_witness:
  "map_option fu_status
     (map_of (fileUploads (srv_repo (fst (upload_chunk default_config (\<lambda>c. []) 5 True (chunk_F 2)
        (server_AB None [''F''] [(''F'', upload_F 3 [0, 1] AcksUndefined)]))))) ''F'')
     = Some Completed
   \<and> srv_filesSent (fst (upload_chunk default_config (\<lambda>c. []) 5 True (chunk_F 2)
        (server_AB None [''F''] [(''F'', upload_F 3 [0, 1] AcksUndefined)]))) = 1
   \<and> map_option fu_status
     (map_of (fileUploads (srv_repo (fst (upload_chunk default_config (\<lambda>c. []) 5 True (chunk_F 1)
        (server_AB None [''F''] [(''F'', upload_F 3 [0] AcksUndefined)]))))) ''F'')
     = Some Uploading
   \<and> srv_filesSent (fst (upload_chunk default_config (\<lambda>c. []) 5 True (chunk_F 1)
        (server_AB None [''F''] [(''F'', upload_F 3 [0] AcksUndefined)]))) = 0"
proof -
  let ?s1 = "server_AB None [''F''] [(''F'', upload_F 3 [0, 1] AcksUndefined)]"
  let ?s0 = "server_AB None [''F''] [(''F'', upload_F 3 [0] AcksUndefined)]"
  let ?r1 = "upload_chunk default_config (\<lambda>c. []) 5 True (chunk_F 2) ?s1"
  let ?r0 = "upload_chunk default_config (\<lambda>c. []) 5 True (chunk_F 1) ?s0"
  have f1: "fst (getUploadState 5 (cd_fileId (chunk_F 2)) (srv_repo ?s1))
              = Some (upload_F 3 [0, 1] AcksUndefined)"
    by (simp add: engine_defs)
  have f0: "fst (getUploadState 5 (cd_fileId (chunk_F 1)) (srv_repo ?s0))
              = Some (upload_F 3 [0] AcksUndefined)"
    by (simp add: engine_defs)
  have u1: "fu_status (upload_F 3 [0, 1] AcksUndefined) = Uploading"
    and u0: "fu_status (upload_F 3 [0] AcksUndefined) = Uploading"
    by (simp_all add: upload_F_def)
  have t1: "?r1 = (fst ?r1, fst (snd ?r1), None)" by (simp add: engine_defs)
  have t0: "?r0 = (fst ?r0, fst (snd ?r0), None)" by (simp add: engine_defs)
  have l1: "map_option (\<lambda>u. int (length (fu_uploadedChunks u)) = fu_totalChunks u)
              (map_of (fileUploads (srv_repo (fst ?r1))) ''F'') = Some True"
    by (simp add: engine_defs)
  have l0: "map_option (\<lambda>u. int (length (fu_uploadedChunks u)) = fu_totalChunks u)
              (map_of (fileUploads (srv_repo (fst ?r0))) ''F'') = Some False"
    by (simp add: engine_defs)
  have i1: "cd_fileId (chunk_F 2) = ''F''" and i0: "cd_fileId (chunk_F 1) = ''F''"
    by (simp_all add: chunk_F_def)
  have s1: "srv_filesSent ?s1 = 0" and s0: "srv_filesSent ?s0 = 0"
    by (simp_all add: server_AB_def)
  from completion_transition[OF f1 u1 t1] l1 have
    "map_option fu_status (map_of (fileUploads (srv_repo (fst ?r1))) ''F'') = Some Completed
     \<and> srv_filesSent (fst ?r1) = 1"
    unfolding i1 s1 by auto
  moreover from completion_transition[OF f0 u0 t0] l0 have
    "map_option fu_status (map_of (fileUploads (srv_repo (fst ?r0))) ''F'') = Some Uploading
     \<and> srv_filesSent (fst ?r0) = 0"
    unfolding i0 s0 by auto
  ultimately show ?thesis by simp
qed

text \<open>
  Claim C1 as stated fails: chunk 2 completes the upload F while the acknowledgements of
  chunks 1 and 2 are pending.
\<close>

theorem completes_with_pending_acks_counterexample:
  "map_of (fileUploads (srv_repo (fst (upload_chunk default_config (\<lambda>c. []) 5 True (chunk_F 2)
      (server_AB None [''F'']
         [(''F'', upload_F 3 [0, 1] (AcksMap [(1, \<lparr>ack_timestamp = 4, ack_retries = 0\<rparr>)]))]))))) ''F''
   = Some ((upload_F 3 [0, 1, 2]
              (AcksMap [(1, \<lparr>ack_timestamp = 4, ack_retries = 0\<rparr>),
                        (2, \<lparr>ack_timestamp = 5, ack_retries = 0\<rparr>)]))
            \<lparr>fu_lastUpdate := 5, fu_status := Completed\<rparr>)"
  by (simp add: engine_defs)


lemma received_cb [simp]: "filter is_chunk_received (cb h (CallbackError m)) = []"
  "filter is_chunk_received (cb h CallbackSuccess) = []"
  by (simp_all add: cb_def is_chunk_received_def)























lemma failed_F_eval:
  "failed_F = (upload_F 3 [0, 1] (AcksMap [(1, \<lparr>ack_timestamp = 30003, ack_retries = 3\<rparr>)]))
                \<lparr>fu_status := Failed\<rparr>"
  by (simp add: failed_F_def ack_round_def check_acks_def example_defs)

text \<open>
  Claim C2 fails on the code. The acknowledgement timer marks F failed after three
  retries of chunk 1; the next chunk request for F is relayed to receiver B all the same,
  and it makes the status completed.
\<close>

theorem failed_upload_still_relays:
  "fu_status failed_F = Failed
   \<and> (ToClient ''B'', ChunkReceived ''F'' 2 ''data'' 3)
       \<in> set (fst (snd (upload_chunk default_config (\<lambda>c. []) 50000 True (chunk_F 2)
                          (server_AB None [''F''] [(''F'', failed_F)]))))
   \<and> map_option fu_status
        (map_of (fileUploads (srv_repo (fst (upload_chunk default_config (\<lambda>c. []) 50000 True
                   (chunk_F 2) (server_AB None [''F''] [(''F'', failed_F)]))))) ''F'')
       = Some Completed"
  by (simp add: failed_F_eval engine_defs)

section \<open>Upload initialisation\<close>

text \<open>
  Claim C7 fails on the code. Receiver B has five downloads, so it is skipped and the
  request of A fails with "All receivers are busy"; the upload state written before the
  check stays in the store, with status uploading.
\<close>

theorem failed_init_leaves_upload:
  "snd (snd (upload_init default_config 10 ''file-10-z''
         \<lparr>id_clientId = ''A'', id_fileName = ''x'', id_fileSize = 48, id_totalChunks = 3\<rparr>
         (server_AB None [''f1'', ''f2'', ''f3'', ''f4'', ''f5''] [])))
     = Some (AppError UPLOAD_FAILED 500 ''All receivers are busy (too many concurrent transfers)'')
   \<and> map_option fu_status
        (map_of (fileUploads (srv_repo (fst (upload_init default_config 10 ''file-10-z''
           \<lparr>id_clientId = ''A'', id_fileName = ''x'', id_fileSize = 48, id_totalChunks = 3\<rparr>
           (server_AB None [''f1'', ''f2'', ''f3'', ''f4'', ''f5''] []))))) ''file-10-z'')
       = Some Uploading"
  by (simp add: upload_init_def checkRateLimit_def getAllUploadStates_def count_active_def
        uploadFailed_def engine_defs)

section \<open>Upload states in Redis\<close>

text \<open>
  What a round trip through Redis keeps of an upload: the chunk set, and of
  \<^verbatim>\<open>pendingAcks\<close> only whether it was defined. On the node that wrote the state the
  object itself is read back.
\<close>

lemma nums_map: "nums (map JNum xs) = Some xs"
  by (induction xs) simp_all

lemma checksum_entries_map:
  "checksum_entries (map (\<lambda>(i, c). JArr [JNum i, JStr c]) cs) = Some cs"
  by (induction cs) auto

lemma string_status_inverse: "string_status (status_string s) = Some s"
  by (cases s) (simp_all add: string_status_def)

lemma set_fold_set_add: "set (fold set_add xs ys) = set xs \<union> set ys"
  by (induction xs arbitrary: ys) (auto simp: set_add_def)

lemma set_new_Set: "set (new_Set xs) = set xs"
  by (simp add: new_Set_def set_fold_set_add)

lemma new_Map_Nil [simp]: "new_Map [] = []"
  by (simp add: new_Map_def)

lemma parse_stringify:
  "parse_upload (stringify_upload u) =
     Some (u\<lparr>fu_uploadedChunks := new_Set (fu_uploadedChunks u),
             fu_chunkChecksums :=
               Some (new_Map (case fu_chunkChecksums u of None \<Rightarrow> [] | Some m \<Rightarrow> m)),
             fu_pendingAcks := (case fu_pendingAcks u of
                                  AcksUndefined \<Rightarrow> AcksUndefined
                                | AcksMap acks \<Rightarrow> AcksObject
                                | AcksObject \<Rightarrow> AcksObject)\<rparr>)"
  by (cases u)
     (simp add: parse_upload_def stringify_upload_def nums_map checksum_entries_map
        string_status_inverse o_def
        split: option.splits PendingAcks.splits)

lemma redis_round_trip:
  assumes "now' < now + ttl * 1000"
  shows "\<exists>u'. getUploadState_redis now' f (setUploadState_redis now ttl f u r) = Some u'
          \<and> set (fu_uploadedChunks u') = set (fu_uploadedChunks u)
          \<and> fu_pendingAcks u' = (case fu_pendingAcks u of
                                   AcksUndefined \<Rightarrow> AcksUndefined
                                 | AcksMap acks \<Rightarrow> AcksObject
                                 | AcksObject \<Rightarrow> AcksObject)"
  using assms
  by (simp add: getUploadState_redis_def setUploadState_redis_def redis_get_def
        redis_lookup_def redis_setEx_def update_conv' parse_stringify set_new_Set)

lemma same_node_round_trip:
  "fst (getUploadState now' f (setUploadState now ttl f u repo)) = Some u"
  by (simp add: getUploadState_def setUploadState_def update_conv')

text \<open>
  Claim C3 fails on the code. Node 2 reads the upload that node 1 wrote: the chunk set
  comes back, and \<^verbatim>\<open>pendingAcks\<close> comes back as a plain object without its entry. The
  next new chunk of F that node 2 handles throws a \<^verbatim>\<open>TypeError\<close>.
\<close>

theorem pendingAcks_lost_in_redis:
  "fst (getUploadState 1 ''F'' node2_repo)
     = Some ((upload_F 3 [0, 1] AcksObject)\<lparr>fu_chunkChecksums := Some []\<rparr>)
   \<and> snd (snd (upload_chunk default_config (\<lambda>c. []) 1 True (chunk_F 2)
         ((server_AB None [''F''] [])\<lparr>srv_repo := node2_repo\<rparr>)))
     = Some (TypeError ''upload.pendingAcks.set is not a function'')"
  by (simp add: node1_repo_def node2_repo_def setUploadState_redis_def
        getUploadState_redis_def stringify_upload_def parse_upload_def redis_defs
        new_Set_def new_Map_def set_add_def string_status_def engine_defs)

section \<open>Rate limiting\<close>

text \<open>
  Claim C10 fails on the code. With a limit of two heartbeats per window, the third
  heartbeat of A within the window is acknowledged when the repository has no Redis
  service, and answered with \<^verbatim>\<open>rate-limited\<close> when it has one.
\<close>

theorem embedded_rate_limit_never_rejects:
  "snd (heartbeat (default_config\<lparr>rateLimitMessages := 2\<rparr>) 2 ''A''
        (fst (heartbeat (default_config\<lparr>rateLimitMessages := 2\<rparr>) 1 ''A''
          (fst (heartbeat (default_config\<lparr>rateLimitMessages := 2\<rparr>) 0 ''A''
             (server_AB None [] []))))))
     = [(ToSocket, HeartbeatAck)]
   \<and> snd (heartbeat (default_config\<lparr>rateLimitMessages := 2\<rparr>) 2 ''A''
        (fst (heartbeat (default_config\<lparr>rateLimitMessages := 2\<rparr>) 1 ''A''
          (fst (heartbeat (default_config\<lparr>rateLimitMessages := 2\<rparr>) 0 ''A''
             (server_AB (Some []) [] []))))))
     = [(ToSocket, RateLimited 60002)]"
  by (simp add: heartbeat_def checkRateLimit_def redis_checkRateLimit_def redis_defs
        example_defs session_defs)

section \<open>Leader election: one master per lock period\<close>







end
